theory Spec2Isabelle
  imports Complex_Main "HOL-Library.Word"
begin

section \<open>The documents page of the admin console (src/pages/index/documents.tsx)\<close>

text \<open>
  The page is one React component. Its handlers are embedded as functions from the
  component state to the new state and the list of effects they perform, in the order
  in which the source performs them. Calls of the remote index client, notifications,
  console output and refetches of the search query are effects. What the remote service
  answers, what the clipboard holds and what the JSON parser returns are inputs.
\<close>

subsection \<open>JavaScript values\<close>

text \<open>A JavaScript string is a sequence of UTF-16 code units.\<close>

type_synonym js_string = "16 word list"

text \<open>The code units of a literal of the source that is written in ASCII.\<close>

definition ascii :: "string \<Rightarrow> js_string" where
  "ascii s = map of_char s"

text \<open>
  A JavaScript \<open>number\<close>: a finite value, one of the two infinities, or NaN. Only
  comparisons are made on numbers in this file, and a comparison of two finite doubles
  is the comparison of their values.
\<close>

datatype number = Finite real | PosInfinity | NegInfinity | NaN

text \<open>The operator \<open><\<close> on numbers: false as soon as one side is NaN.\<close>

fun js_lt :: "number \<Rightarrow> number \<Rightarrow> bool" where
  "js_lt NaN y = False"
| "js_lt x NaN = False"
| "js_lt (Finite a) (Finite b) = (a < b)"
| "js_lt (Finite a) PosInfinity = True"
| "js_lt (Finite a) NegInfinity = False"
| "js_lt NegInfinity NegInfinity = False"
| "js_lt NegInfinity y = True"
| "js_lt PosInfinity y = False"

text \<open>The operator \<open>>=\<close> on numbers: false on NaN, otherwise the negation of \<open><\<close>.\<close>

definition js_ge :: "number \<Rightarrow> number \<Rightarrow> bool" where
  "js_ge x y = (if x = NaN \<or> y = NaN then False else \<not> js_lt x y)"

text \<open>A value produced by \<open>JSON.parse\<close>, or a document of the index.\<close>

datatype json =
    JNull
  | JBool bool
  | JNumber number
  | JString js_string
  | JArray "json list"
  | JObject "(js_string \<times> json) list"

text \<open>
  A search hit is a plain object: its own properties, as parsed from the answer of the
  service, and \<open>Object.prototype\<close> as its prototype.
\<close>

type_synonym hit = "(js_string \<times> json) list"

text \<open>
  What a property access on a hit evaluates to: \<open>undefined\<close>, the value of an own
  property, or the member of \<open>Object.prototype\<close> of the given name (a function, and
  the prototype itself for \<open>__proto__\<close>).
\<close>

datatype js_value = Undefined | Value json | Inherited js_string

text \<open>The names of the properties of \<open>Object.prototype\<close>.\<close>

definition Object_prototype_names :: "js_string list" where
  "Object_prototype_names =
     map ascii [''constructor'', ''hasOwnProperty'', ''isPrototypeOf'', ''propertyIsEnumerable'',
       ''toLocaleString'', ''toString'', ''valueOf'', ''__proto__'', ''__defineGetter__'',
       ''__defineSetter__'', ''__lookupGetter__'', ''__lookupSetter__'']"

text \<open>
  \<open>doc[pk]\<close>: the own property of that name if the hit has one, otherwise the member
  of the prototype of that name, otherwise \<open>undefined\<close>.
\<close>

definition hit_get :: "hit \<Rightarrow> js_string \<Rightarrow> js_value" where
  "hit_get doc pk =
     (case map_of doc pk of
        Some v \<Rightarrow> Value v
      | None \<Rightarrow> if pk \<in> set Object_prototype_names then Inherited pk else Undefined)"

text \<open>Truthiness of a value of type \<open>string | undefined\<close>, as in \<open>if (pk)\<close>.\<close>

fun truthy :: "js_string option \<Rightarrow> bool" where
  "truthy None = False"
| "truthy (Some s) = (s \<noteq> [])"

datatype js_error = TypeError | SyntaxError | NotAllowedError | RemoteError js_string

text \<open>The task handle that a mutating call of the index client resolves to.\<close>

datatype task = EnqueuedTask nat

subsection \<open>Effects and component state\<close>

record confirm_modal =
  modal_title :: js_string
  modal_pk :: js_string
  modal_doc_pk :: js_value
  modal_index :: "js_string option"
  modal_labels :: "js_string \<times> js_string"
  modal_onConfirm :: "js_value list"

text \<open>
  \<open>modal_onConfirm\<close> is the argument that the closure \<open>onConfirm\<close> passes to
  \<open>removeDocumentsMutation.mutate\<close>; \<open>modal_pk\<close>, \<open>modal_doc_pk\<close> and
  \<open>modal_index\<close> are the values rendered in the body of the dialog.
\<close>

record search_params =
  p_limit :: number
  p_offset :: number
  p_filter :: js_string
  p_sort :: "js_string list"

datatype effect =
    ShowNotification js_string js_string
  | ShowTaskSubmitNotification task
  | ShowTaskErrorNotification js_error
  | ConsoleError js_error
  | ConsoleDebug "json option list"
  | Refetch
  | Search js_string js_string search_params
  | AddDocuments js_string "json list"
  | UpdateDocuments js_string "hit list"
  | DeleteDocuments js_string "js_value list"
  | OpenConfirmModal confirm_modal

text \<open>
  \<open>ShowNotification color message\<close> is \<open>showNotification({color, message})\<close>;
  \<open>Refetch\<close> is \<open>searchDocumentsQuery.refetch()\<close>; \<open>Search\<close>, \<open>AddDocuments\<close>,
  \<open>UpdateDocuments\<close> and \<open>DeleteDocuments\<close> are the calls of the index client, with the
  uid of the index first.
\<close>

record searchForm_values =
  v_q :: js_string
  v_offset :: number
  v_limit :: number
  v_filter :: js_string
  v_sort :: js_string

record state =
  isAddDocumentsModalOpen :: bool
  isEditDocumentsModalOpen :: bool
  editingDocument :: "hit option"
  addDocumentsForm_documents :: "json list"

text \<open>What a render of the component has in scope besides its state.\<close>

record env =
  currentIndex :: "js_string option"
  indexPrimaryKeyQuery_data :: "js_string option"

text \<open>
  \<open>indexClient = currentIndex ? client.index(currentIndex) : undefined\<close>; the client
  of an index is identified by the uid of the index.
\<close>

definition indexClient :: "env \<Rightarrow> js_string option" where
  "indexClient e = (if truthy (currentIndex e) then currentIndex e else None)"

subsection \<open>The forms and their validators\<close>

definition limit_msg :: js_string where
  "limit_msg = ascii ''limit search value allow (<500) in this ui console for performance''"

text \<open>\<open>validate.limit\<close> of the search form: \<open>null\<close> is \<open>None\<close>.\<close>

definition searchForm_validate_limit :: "number \<Rightarrow> js_string option" where
  "searchForm_validate_limit v = (if js_lt v (Finite 500) then None else Some limit_msg)"

definition searchForm_initialValues :: searchForm_values where
  "searchForm_initialValues =
     \<lparr>v_q = [], v_offset = Finite 0, v_limit = Finite 20, v_filter = [], v_sort = []\<rparr>"

text \<open>
  The form library's \<open>form.onSubmit(handler)\<close>: every validator of the form runs; the
  handler is called when none of them returned a message, and is not called otherwise.
\<close>

datatype 'a submit_result = ValidationFailed "(string \<times> js_string) list" | Submitted 'a

definition searchForm_validate :: "searchForm_values \<Rightarrow> (string \<times> js_string) list" where
  "searchForm_validate vs =
     (case searchForm_validate_limit (v_limit vs) of
        None \<Rightarrow> []
      | Some m \<Rightarrow> [(''limit'', m)])"

text \<open>\<open>onSearchSubmit\<close> awaits \<open>searchDocumentsQuery.refetch()\<close>.\<close>

definition onSearchSubmit :: "effect list" where
  "onSearchSubmit = [Refetch]"

definition searchForm_onSubmit :: "searchForm_values \<Rightarrow> effect list submit_result" where
  "searchForm_onSubmit vs =
     (case searchForm_validate vs of
        [] \<Rightarrow> Submitted onSearchSubmit
      | errs \<Rightarrow> ValidationFailed errs)"

definition documents_msg :: js_string where
  "documents_msg = ascii ''Added documents should be JSON Array whose length > 0''"

text \<open>
  \<open>validate.documents\<close> of the add-documents form, with the notification it shows
  when it rejects.
\<close>

definition addDocumentsForm_validate_documents :: "json list \<Rightarrow> js_string option \<times> effect list" where
  "addDocumentsForm_validate_documents v =
     (if length v > 0 then (None, [])
      else (let msg = documents_msg
            in (Some msg, [ShowNotification (ascii ''yellow'') msg])))"

subsection \<open>The mutations\<close>

text \<open>
  The query library's \<open>mutate(variables)\<close>: the mutation function runs; \<open>onSuccess\<close>
  is called with what it resolved to, \<open>onError\<close> with what it threw or rejected with.
  The answer of the remote service is the parameter \<open>resp\<close> of the mutation functions.
\<close>

definition mutate ::
  "('v \<Rightarrow> effect list \<times> (js_error + task)) \<Rightarrow> (task \<Rightarrow> state \<Rightarrow> state \<times> effect list)
     \<Rightarrow> (js_error \<Rightarrow> state \<Rightarrow> state \<times> effect list) \<Rightarrow> 'v \<Rightarrow> state \<Rightarrow> state \<times> effect list" where
  "mutate mutationFn onSuccess onError variables st =
     (case mutationFn variables of
        (es, Inr t) \<Rightarrow> (case onSuccess t st of (st', es') \<Rightarrow> (st', es @ es'))
      | (es, Inl err) \<Rightarrow> (case onError err st of (st', es') \<Rightarrow> (st', es @ es')))"

text \<open>
  \<open>indexClient!.addDocuments(variables)\<close>: the call throws a TypeError, and nothing is
  sent, when no index is selected.
\<close>

definition addDocumentsMutation_fn ::
  "env \<Rightarrow> js_error + task \<Rightarrow> json list \<Rightarrow> effect list \<times> (js_error + task)" where
  "addDocumentsMutation_fn e resp variables =
     (case indexClient e of
        None \<Rightarrow> ([], Inl TypeError)
      | Some uid \<Rightarrow> ([AddDocuments uid variables], resp))"

text \<open>\<open>addDocumentsForm.reset()\<close> puts the initial value \<open>[]\<close> back.\<close>

definition addDocumentsMutation_onSuccess :: "task \<Rightarrow> state \<Rightarrow> state \<times> effect list" where
  "addDocumentsMutation_onSuccess t st =
     (st\<lparr>isAddDocumentsModalOpen := False, addDocumentsForm_documents := []\<rparr>,
      [ShowTaskSubmitNotification t])"

definition addDocumentsMutation_onError :: "js_error \<Rightarrow> state \<Rightarrow> state \<times> effect list" where
  "addDocumentsMutation_onError error st = (st, [ConsoleError error, ShowTaskErrorNotification error])"

definition addDocumentsMutation_mutate ::
  "env \<Rightarrow> js_error + task \<Rightarrow> json list \<Rightarrow> state \<Rightarrow> state \<times> effect list" where
  "addDocumentsMutation_mutate e resp =
     mutate (addDocumentsMutation_fn e resp) addDocumentsMutation_onSuccess addDocumentsMutation_onError"

definition removeDocumentsMutation_fn ::
  "env \<Rightarrow> js_error + task \<Rightarrow> js_value list \<Rightarrow> effect list \<times> (js_error + task)" where
  "removeDocumentsMutation_fn e resp docId =
     (case indexClient e of
        None \<Rightarrow> ([], Inl TypeError)
      | Some uid \<Rightarrow> ([DeleteDocuments uid docId], resp))"

definition removeDocumentsMutation_onSuccess :: "task \<Rightarrow> state \<Rightarrow> state \<times> effect list" where
  "removeDocumentsMutation_onSuccess t st = (st, [ShowTaskSubmitNotification t, Refetch])"

definition removeDocumentsMutation_onError :: "js_error \<Rightarrow> state \<Rightarrow> state \<times> effect list" where
  "removeDocumentsMutation_onError error st = (st, [ConsoleError error, ShowTaskErrorNotification error])"

definition removeDocumentsMutation_mutate ::
  "env \<Rightarrow> js_error + task \<Rightarrow> js_value list \<Rightarrow> state \<Rightarrow> state \<times> effect list" where
  "removeDocumentsMutation_mutate e resp =
     mutate (removeDocumentsMutation_fn e resp) removeDocumentsMutation_onSuccess
       removeDocumentsMutation_onError"

definition editDocumentMutation_fn ::
  "env \<Rightarrow> js_error + task \<Rightarrow> hit list \<Rightarrow> effect list \<times> (js_error + task)" where
  "editDocumentMutation_fn e resp docs =
     (case indexClient e of
        None \<Rightarrow> ([], Inl TypeError)
      | Some uid \<Rightarrow> ([UpdateDocuments uid docs], resp))"

definition editDocumentMutation_onSuccess :: "task \<Rightarrow> state \<Rightarrow> state \<times> effect list" where
  "editDocumentMutation_onSuccess t st =
     (st\<lparr>isEditDocumentsModalOpen := False\<rparr>, [ShowTaskSubmitNotification t, Refetch])"

definition editDocumentMutation_onError :: "js_error \<Rightarrow> state \<Rightarrow> state \<times> effect list" where
  "editDocumentMutation_onError error st = (st, [ConsoleError error, ShowTaskErrorNotification error])"

definition editDocumentMutation_mutate ::
  "env \<Rightarrow> js_error + task \<Rightarrow> hit list \<Rightarrow> state \<Rightarrow> state \<times> effect list" where
  "editDocumentMutation_mutate e resp =
     mutate (editDocumentMutation_fn e resp) editDocumentMutation_onSuccess editDocumentMutation_onError"

subsection \<open>Adding documents\<close>

definition onAddDocumentsSubmit ::
  "env \<Rightarrow> js_error + task \<Rightarrow> json list \<Rightarrow> state \<Rightarrow> state \<times> effect list" where
  "onAddDocumentsSubmit e resp val_documents st = addDocumentsMutation_mutate e resp val_documents st"

text \<open>
  \<open>addDocumentsForm.onSubmit(onAddDocumentsSubmit)\<close>: the messages of the validators
  that rejected (none when the form is accepted), the state and the effects.
\<close>

definition addDocumentsForm_onSubmit ::
  "env \<Rightarrow> js_error + task \<Rightarrow> state \<Rightarrow> (string \<times> js_string) list \<times> state \<times> effect list" where
  "addDocumentsForm_onSubmit e resp st =
     (case addDocumentsForm_validate_documents (addDocumentsForm_documents st) of
        (None, es) \<Rightarrow>
          (case onAddDocumentsSubmit e resp (addDocumentsForm_documents st) st of
             (st', es') \<Rightarrow> ([], st', es @ es'))
      | (Some m, es) \<Rightarrow> ([(''documents'', m)], st, es))"

text \<open>The number of calls of each kind in a list of effects.\<close>

fun is_refetch :: "effect \<Rightarrow> bool" where
  "is_refetch Refetch = True"
| "is_refetch _ = False"

fun is_success_notification :: "effect \<Rightarrow> bool" where
  "is_success_notification (ShowTaskSubmitNotification t) = True"
| "is_success_notification _ = False"

fun is_notification :: "effect \<Rightarrow> bool" where
  "is_notification (ShowNotification c m) = True"
| "is_notification (ShowTaskSubmitNotification t) = True"
| "is_notification (ShowTaskErrorNotification err) = True"
| "is_notification _ = False"

fun is_endpoint_call :: "effect \<Rightarrow> bool" where
  "is_endpoint_call (AddDocuments uid ds) = True"
| "is_endpoint_call (UpdateDocuments uid ds) = True"
| "is_endpoint_call (DeleteDocuments uid ids) = True"
| "is_endpoint_call (Search uid q ps) = True"
| "is_endpoint_call _ = False"

definition refetches :: "effect list \<Rightarrow> nat" where
  "refetches es = length (filter is_refetch es)"

definition success_notifications :: "effect list \<Rightarrow> nat" where
  "success_notifications es = length (filter is_success_notification es)"

subsection \<open>Deleting a document\<close>

text \<open>How a template literal prints a value of type \<open>string | undefined\<close>.\<close>

fun template_string :: "js_string option \<Rightarrow> js_string" where
  "template_string None = ascii ''undefined''"
| "template_string (Some s) = s"

text \<open>
  \<open>onClickDocumentDel\<close>: with a truthy primary key the confirmation dialog is opened,
  and its \<open>onConfirm\<close> holds the list \<open>[doc[pk]]\<close>; otherwise the notification.
\<close>

definition onClickDocumentDel :: "env \<Rightarrow> hit \<Rightarrow> effect list" where
  "onClickDocumentDel e doc =
     (let pk = indexPrimaryKeyQuery_data e
      in ConsoleDebug [Some (JString (ascii ''onClickDocumentDel'')), Some (JString (ascii ''pk'')),
                       map_option JString pk]
         # (case pk of
              Some k \<Rightarrow>
                if truthy pk
                then [OpenConfirmModal
                        \<lparr>modal_title = ascii ''Delete a document'',
                         modal_pk = k,
                         modal_doc_pk = hit_get doc k,
                         modal_index = currentIndex e,
                         modal_labels = (ascii ''Confirm'', ascii ''Cancel''),
                         modal_onConfirm = [hit_get doc k]\<rparr>]
                else [ShowNotification (ascii ''danger'')
                        (ascii ''Document deletion require the valid primaryKey in index ''
                           @ template_string (indexClient e))]
            | None \<Rightarrow>
                [ShowNotification (ascii ''danger'')
                   (ascii ''Document deletion require the valid primaryKey in index ''
                      @ template_string (indexClient e))]))"

text \<open>The closure \<open>onConfirm\<close> of a dialog that \<open>onClickDocumentDel\<close> opened.\<close>

definition modal_confirm ::
  "env \<Rightarrow> js_error + task \<Rightarrow> confirm_modal \<Rightarrow> state \<Rightarrow> state \<times> effect list" where
  "modal_confirm e resp m st = removeDocumentsMutation_mutate e resp (modal_onConfirm m) st"

text \<open>
  A click on Delete followed by the user's answer to every dialog that the click
  opened: the modal library runs \<open>onConfirm\<close> when the user confirms, and nothing of
  this file when the user cancels (no \<open>onCancel\<close> is given).
\<close>

datatype user_choice = Confirm | Cancel

fun answer_modals ::
  "env \<Rightarrow> js_error + task \<Rightarrow> user_choice \<Rightarrow> effect list \<Rightarrow> state \<Rightarrow> state \<times> effect list" where
  "answer_modals e resp choice [] st = (st, [])"
| "answer_modals e resp choice (OpenConfirmModal m # es) st =
     (case choice of
        Confirm \<Rightarrow>
          (case modal_confirm e resp m st of
             (st', es') \<Rightarrow>
               (case answer_modals e resp choice es st' of (st'', es'') \<Rightarrow> (st'', es' @ es'')))
      | Cancel \<Rightarrow> answer_modals e resp choice es st)"
| "answer_modals e resp choice (x # es) st = answer_modals e resp choice es st"

definition click_delete ::
  "env \<Rightarrow> js_error + task \<Rightarrow> user_choice \<Rightarrow> hit \<Rightarrow> state \<Rightarrow> state \<times> effect list" where
  "click_delete e resp choice doc st =
     (let es = onClickDocumentDel e doc
      in case answer_modals e resp choice es st of (st', es') \<Rightarrow> (st', es @ es'))"

text \<open>The identifier lists of the delete calls among the effects.\<close>

fun delete_calls :: "effect list \<Rightarrow> js_value list list" where
  "delete_calls [] = []"
| "delete_calls (DeleteDocuments uid ids # es) = ids # delete_calls es"
| "delete_calls (x # es) = delete_calls es"

subsection \<open>Editing a document\<close>

definition onClickDocumentUpdate :: "hit \<Rightarrow> state \<Rightarrow> state \<times> effect list" where
  "onClickDocumentUpdate doc st =
     (st\<lparr>isEditDocumentsModalOpen := True, editingDocument := Some doc\<rparr>, [])"

text \<open>
  \<open>editingDocument && editDocumentMutation.mutate([editingDocument])\<close>: the state holds
  an object or \<open>undefined\<close>, and every object is truthy.
\<close>

definition onSubmitDocumentUpdate :: "env \<Rightarrow> js_error + task \<Rightarrow> state \<Rightarrow> state \<times> effect list" where
  "onSubmitDocumentUpdate e resp st =
     (case editingDocument st of
        None \<Rightarrow> (st, [])
      | Some d \<Rightarrow> editDocumentMutation_mutate e resp [d] st)"

text \<open>The document lists of the update calls among the effects.\<close>

fun update_calls :: "effect list \<Rightarrow> hit list list" where
  "update_calls [] = []"
| "update_calls (UpdateDocuments uid ds # es) = ds # update_calls es"
| "update_calls (x # es) = update_calls es"

subsection \<open>The clipboard default of the add-documents dialog\<close>

text \<open>
  A clipboard item: its MIME types, and \<open>getType\<close> followed by \<open>text()\<close>, which
  resolves to the text of a representation or rejects.
\<close>

record clipboard_item =
  item_types :: "js_string list"
  item_getType :: "js_string \<Rightarrow> js_error + js_string"

text \<open>\<open>_.isArray\<close> and \<open>_.isObject\<close> on a parsed value; an array is an object too.\<close>

fun isArray :: "json \<Rightarrow> bool" where
  "isArray (JArray xs) = True"
| "isArray _ = False"

fun isObject :: "json \<Rightarrow> bool" where
  "isObject (JArray xs) = True"
| "isObject (JObject kvs) = True"
| "isObject _ = False"

fun elements :: "json \<Rightarrow> json list" where
  "elements (JArray xs) = xs"
| "elements _ = []"

text \<open>
  \<open>onAddDocumentsClick\<close>. The parser \<open>JSON.parse\<close> and what
  \<open>navigator.clipboard.read()\<close> resolves to (or rejects with) are parameters. The
  third component of the result is the error with which the handler's promise rejects,
  if any: the handler catches nothing, and state set before the error stays set.
  Destructuring an empty list gives \<open>undefined\<close>, whose \<open>types\<close> is a TypeError.
\<close>

definition onAddDocumentsClick ::
  "(js_string \<Rightarrow> js_error + json) \<Rightarrow> js_error + clipboard_item list \<Rightarrow> state
     \<Rightarrow> state \<times> effect list \<times> js_error option" where
  "onAddDocumentsClick JSON_parse clipboard_read st =
     (let st1 = st\<lparr>isAddDocumentsModalOpen := True\<rparr>
      in case clipboard_read of
           Inl err \<Rightarrow> (st1, [], Some err)
         | Inr [] \<Rightarrow> (st1, [], Some TypeError)
         | Inr (firstContent # rest) \<Rightarrow>
             if ascii ''text/plain'' \<in> set (item_types firstContent)
             then (case item_getType firstContent (ascii ''text/plain'') of
                     Inl err \<Rightarrow> (st1, [], Some err)
                   | Inr text \<Rightarrow>
                       (case JSON_parse text of
                          Inl err \<Rightarrow> (st1, [], Some err)
                        | Inr json \<Rightarrow>
                            (let arr = (if isArray json then elements json
                                        else if isObject json then [json] else []);
                                 es = [ConsoleDebug
                                         [Some (JString (ascii ''onAddDocumentsClick paste clipboard'')),
                                          Some (JArray arr), Some json]]
                             in if length arr > 0
                                then (st1\<lparr>addDocumentsForm_documents := arr\<rparr>, es, None)
                                else (st1, es, None))))
             else (st1, [], None))"

subsection \<open>The search query\<close>

text \<open>
  The code units that \<open>String.prototype.trim\<close> strips: the white space and the line
  terminators of the language.
\<close>

definition is_ws :: "16 word \<Rightarrow> bool" where
  "is_ws c = (c \<in> {0x0009, 0x000A, 0x000B, 0x000C, 0x000D, 0x0020, 0x00A0, 0x1680,
                     0x2028, 0x2029, 0x202F, 0x205F, 0x3000, 0xFEFF}
              \<or> (0x2000 \<le> c \<and> c \<le> 0x200A))"

definition js_trim :: "js_string \<Rightarrow> js_string" where
  "js_trim s = rev (dropWhile is_ws (rev (dropWhile is_ws s)))"

text \<open>
  \<open>s.split(sep)\<close> for a separator of one code unit: the segments between the
  occurrences of the separator; one empty segment for the empty string.
\<close>

fun js_split :: "16 word \<Rightarrow> js_string \<Rightarrow> js_string list" where
  "js_split sep [] = [[]]"
| "js_split sep (c # cs) =
     (if c = sep then [] # js_split sep cs
      else (case js_split sep cs of
              [] \<Rightarrow> [[c]]
            | seg # segs \<Rightarrow> (c # seg) # segs))"

definition comma :: "16 word" where
  "comma = of_char CHR '',''"

text \<open>\<open>segs.join(sep)\<close>, the inverse of splitting.\<close>

fun js_join :: "16 word \<Rightarrow> js_string list \<Rightarrow> js_string" where
  "js_join sep [] = []"
| "js_join sep [x] = x"
| "js_join sep (x # y # ys) = x @ sep # js_join sep (y # ys)"

text \<open>The list that the query function passes as \<open>sort\<close>.\<close>

definition sort_list :: "js_string \<Rightarrow> js_string list" where
  "sort_list sort_expr =
     map (\<lambda>v. js_trim v) (filter (\<lambda>v. length (js_trim v) > 0) (js_split comma sort_expr))"

text \<open>
  The same list in the words of the specification: split on commas, drop the segments
  that are empty or consist of white space only, trim each remaining segment.
\<close>

definition whitespace_only :: "js_string \<Rightarrow> bool" where
  "whitespace_only seg = list_all is_ws seg"

definition spec_sort_list :: "js_string \<Rightarrow> js_string list" where
  "spec_sort_list sort_expr =
     map js_trim (filter (\<lambda>seg. \<not> (seg = [] \<or> whitespace_only seg)) (js_split comma sort_expr))"

text \<open>
  \<open>{ ...searchForm.values, ...queryKey[3] }\<close>: both objects have every property of the
  form's values, so each property is taken from the second.
\<close>

definition spread :: "searchForm_values \<Rightarrow> searchForm_values \<Rightarrow> searchForm_values" where
  "spread a b =
     \<lparr>v_q = v_q b, v_offset = v_offset b, v_limit = v_limit b, v_filter = v_filter b,
      v_sort = v_sort b\<rparr>"

text \<open>
  The query function of \<open>searchDocumentsQuery\<close>, for the form's values of the render
  and those in the query key; \<open>resp\<close> is the answer of the remote service.
\<close>

definition searchDocumentsQuery_fn ::
  "env \<Rightarrow> searchForm_values \<Rightarrow> searchForm_values \<Rightarrow> js_error + 'r
     \<Rightarrow> effect list \<times> (js_error + 'r)" where
  "searchDocumentsQuery_fn e form_values key_values resp =
     (let vs = spread form_values key_values
      in case indexClient e of
           None \<Rightarrow> ([], Inl TypeError)
         | Some uid \<Rightarrow>
             ([Search uid (v_q vs)
                 \<lparr>p_limit = v_limit vs, p_offset = v_offset vs, p_filter = v_filter vs,
                  p_sort = sort_list (v_sort vs)\<rparr>],
              resp))"

subsection \<open>Sample values\<close>

definition sample_env :: env where
  "sample_env = \<lparr>currentIndex = Some (ascii ''movies''), indexPrimaryKeyQuery_data = Some (ascii ''id'')\<rparr>"

definition sample_doc :: hit where
  "sample_doc = [(ascii ''id'', JNumber (Finite 7)), (ascii ''title'', JString (ascii ''Heat''))]"

definition sample_state :: state where
  "sample_state = \<lparr>isAddDocumentsModalOpen = True, isEditDocumentsModalOpen = True,
     editingDocument = Some sample_doc, addDocumentsForm_documents = [JObject sample_doc]\<rparr>"

definition sample_item :: "js_string \<Rightarrow> clipboard_item" where
  "sample_item content =
     \<lparr>item_types = [ascii ''text/plain''],
      item_getType = (\<lambda>t. if t = ascii ''text/plain'' then Inr content else Inl NotAllowedError)\<rparr>"

section \<open>Properties\<close>

subsection \<open>The limit validator\<close>

lemma js_lt_Finite_500:
  "js_lt v (Finite 500) = (case v of Finite a \<Rightarrow> a < 500 | NegInfinity \<Rightarrow> True | _ \<Rightarrow> False)"
  by (cases v) simp_all

lemma js_ge_Finite_500:
  "js_ge v (Finite 500) = (case v of Finite a \<Rightarrow> 500 \<le> a | PosInfinity \<Rightarrow> True | _ \<Rightarrow> False)"
  by (cases v) (simp_all add: js_ge_def not_less)

text \<open>
  C2, as stated, fails at NaN, a value of the type \<open>number\<close>: the validator rejects
  it with the message, and NaN is not greater than or equal to 500.
\<close>

theorem C2_limit_NaN_counterexample:
  "searchForm_validate_limit NaN = Some limit_msg \<and> \<not> js_ge NaN (Finite 500)
   \<and> searchForm_onSubmit (searchForm_initialValues\<lparr>v_limit := NaN\<rparr>)
       = ValidationFailed [(''limit'', limit_msg)]"
  by (simp add: searchForm_validate_limit_def js_ge_def searchForm_onSubmit_def
      searchForm_validate_def searchForm_initialValues_def)

text \<open>
  C2 (amended): a submitted search form is rejected if and only if its limit is not
  less than 500, that is, greater than or equal to 500 or NaN. The rejection carries the
  literal message \<open>limit search value allow (<500) in this ui console for performance\<close>
  for the field \<open>limit\<close>, and the submit handler does not run; an accepted form runs the
  submit handler, which refetches the search query.
\<close>

theorem C2_limit_rejected_iff_not_below_500:
  "(searchForm_validate_limit (v_limit vs) \<noteq> None)
     = (js_ge (v_limit vs) (Finite 500) \<or> v_limit vs = NaN)
   \<and> (searchForm_validate_limit (v_limit vs) \<noteq> None)
     = (searchForm_validate_limit (v_limit vs)
         = Some (ascii ''limit search value allow (<500) in this ui console for performance''))
   \<and> searchForm_onSubmit vs
     = (if js_ge (v_limit vs) (Finite 500) \<or> v_limit vs = NaN
        then ValidationFailed [(''limit'',
               ascii ''limit search value allow (<500) in this ui console for performance'')]
        else Submitted [Refetch])"
  by (cases "v_limit vs")
    (simp_all add: searchForm_validate_limit_def js_ge_def searchForm_onSubmit_def
      searchForm_validate_def limit_msg_def onSearchSubmit_def not_less)

theorem C2_limit_rejected_witness:
  "searchForm_onSubmit (searchForm_initialValues\<lparr>v_limit := Finite 500\<rparr>)
     = ValidationFailed [(''limit'',
         ascii ''limit search value allow (<500) in this ui console for performance'')]
   \<and> searchForm_onSubmit (searchForm_initialValues\<lparr>v_limit := Finite 499\<rparr>)
     = Submitted [Refetch]"
  using C2_limit_rejected_iff_not_below_500
          [of "searchForm_initialValues\<lparr>v_limit := Finite 500\<rparr>"]
        C2_limit_rejected_iff_not_below_500
          [of "searchForm_initialValues\<lparr>v_limit := Finite 499\<rparr>"]
  by (simp add: searchForm_initialValues_def js_ge_def)

text \<open>
  C8: the limit validator has no lower bound. Every limit strictly below 500, zero and
  the negative numbers included, is accepted and the submit handler runs.
\<close>

theorem C8_limit_no_lower_bound:
  "js_lt (v_limit vs) (Finite 500) \<Longrightarrow>
     searchForm_validate_limit (v_limit vs) = None \<and> searchForm_onSubmit vs = Submitted [Refetch]"
  by (simp add: searchForm_validate_limit_def searchForm_onSubmit_def searchForm_validate_def
      onSearchSubmit_def)

theorem C8_limit_no_lower_bound_witness:
  "js_lt (Finite (- 7)) (Finite 500)
   \<and> searchForm_validate_limit (Finite (- 7)) = None
   \<and> searchForm_onSubmit (searchForm_initialValues\<lparr>v_limit := Finite (- 7)\<rparr>) = Submitted [Refetch]
   \<and> js_lt (Finite 0) (Finite 500)
   \<and> searchForm_validate_limit (Finite 0) = None"
  using C8_limit_no_lower_bound [of "searchForm_initialValues\<lparr>v_limit := Finite (- 7)\<rparr>"]
        C8_limit_no_lower_bound [of "searchForm_initialValues\<lparr>v_limit := Finite 0\<rparr>"]
  by (simp add: searchForm_initialValues_def)

subsection \<open>Sample values\<close>

lemma indexClient_sample_env: "indexClient sample_env = Some (ascii ''movies'')"
  by (simp add: indexClient_def sample_env_def ascii_def)

subsection \<open>The add-documents validator\<close>

text \<open>
  C5: the documents validator accepts the payload, an array, if and only if its length
  is greater than 0. Otherwise it returns the literal message
  \<open>Added documents should be JSON Array whose length > 0\<close> and shows it as a yellow
  (warning) notification; the form is then not submitted: the state is unchanged and the
  add-documents endpoint is not called.
\<close>

theorem C5_documents_validator:
  "(fst (addDocumentsForm_validate_documents v) = None) = (0 < length v)
   \<and> addDocumentsForm_validate_documents v =
       (if 0 < length v then (None, [])
        else (Some (ascii ''Added documents should be JSON Array whose length > 0''),
              [ShowNotification (ascii ''yellow'')
                 (ascii ''Added documents should be JSON Array whose length > 0'')]))
   \<and> addDocumentsForm_onSubmit e resp st =
       (if 0 < length (addDocumentsForm_documents st)
        then ([], addDocumentsMutation_mutate e resp (addDocumentsForm_documents st) st)
        else ([(''documents'', ascii ''Added documents should be JSON Array whose length > 0'')],
              st,
              [ShowNotification (ascii ''yellow'')
                 (ascii ''Added documents should be JSON Array whose length > 0'')]))
   \<and> (addDocumentsForm_documents st = [] \<longrightarrow>
        filter is_endpoint_call (snd (snd (addDocumentsForm_onSubmit e resp st))) = [])"
  by (cases "addDocumentsMutation_mutate e resp (addDocumentsForm_documents st) st")
    (simp add: addDocumentsForm_validate_documents_def addDocumentsForm_onSubmit_def
      onAddDocumentsSubmit_def documents_msg_def Let_def)

theorem C5_documents_validator_witness:
  "addDocumentsForm_onSubmit sample_env (Inr (EnqueuedTask 3))
       (sample_state\<lparr>addDocumentsForm_documents := []\<rparr>)
     = ([(''documents'', ascii ''Added documents should be JSON Array whose length > 0'')],
        sample_state\<lparr>addDocumentsForm_documents := []\<rparr>,
        [ShowNotification (ascii ''yellow'')
           (ascii ''Added documents should be JSON Array whose length > 0'')])
   \<and> fst (addDocumentsForm_validate_documents [JObject sample_doc]) = None"
  using C5_documents_validator [of "[]" sample_env "Inr (EnqueuedTask 3)"
          "sample_state\<lparr>addDocumentsForm_documents := []\<rparr>"]
        C5_documents_validator [of "[JObject sample_doc]" sample_env "Inr (EnqueuedTask 3)"
          "sample_state\<lparr>addDocumentsForm_documents := []\<rparr>"]
  by simp

subsection \<open>Successful mutations\<close>

lemma removeDocumentsMutation_success:
  "indexClient e = Some uid \<Longrightarrow>
     removeDocumentsMutation_mutate e (Inr t) ids st
       = (st, [DeleteDocuments uid ids, ShowTaskSubmitNotification t, Refetch])"
  by (simp add: removeDocumentsMutation_mutate_def mutate_def removeDocumentsMutation_fn_def
      removeDocumentsMutation_onSuccess_def)

lemma editDocumentMutation_success:
  "indexClient e = Some uid \<Longrightarrow>
     editDocumentMutation_mutate e (Inr t) docs st
       = (st\<lparr>isEditDocumentsModalOpen := False\<rparr>,
          [UpdateDocuments uid docs, ShowTaskSubmitNotification t, Refetch])"
  by (simp add: editDocumentMutation_mutate_def mutate_def editDocumentMutation_fn_def
      editDocumentMutation_onSuccess_def)

lemma addDocumentsMutation_success:
  "indexClient e = Some uid \<Longrightarrow>
     addDocumentsMutation_mutate e (Inr t) docs st
       = (st\<lparr>isAddDocumentsModalOpen := False, addDocumentsForm_documents := []\<rparr>,
          [AddDocuments uid docs, ShowTaskSubmitNotification t])"
  by (simp add: addDocumentsMutation_mutate_def mutate_def addDocumentsMutation_fn_def
      addDocumentsMutation_onSuccess_def)

lemma remove_and_edit_success_counts:
  assumes "indexClient e = Some uid"
  shows "refetches (snd (removeDocumentsMutation_mutate e (Inr t) ids st)) = 1"
    and "success_notifications (snd (removeDocumentsMutation_mutate e (Inr t) ids st)) = 1"
    and "refetches (snd (editDocumentMutation_mutate e (Inr t) docs st)) = 1"
    and "success_notifications (snd (editDocumentMutation_mutate e (Inr t) docs st)) = 1"
  using assms
  by (simp_all add: removeDocumentsMutation_success editDocumentMutation_success
      refetches_def success_notifications_def)

text \<open>
  C1 on the code: a successful delete and a successful update each trigger exactly one
  refetch of the search query and one task-submit notification
  (\<open>remove_and_edit_success_counts\<close>). A successful add shows the one task-submit
  notification, closes the dialog and resets the form, and triggers no refetch.
\<close>

theorem C1_add_success_without_refetch:
  "indexClient e = Some uid \<Longrightarrow>
     snd (addDocumentsMutation_mutate e (Inr t) docs st)
       = [AddDocuments uid docs, ShowTaskSubmitNotification t]
     \<and> refetches (snd (addDocumentsMutation_mutate e (Inr t) docs st)) = 0
     \<and> success_notifications (snd (addDocumentsMutation_mutate e (Inr t) docs st)) = 1"
  by (simp add: addDocumentsMutation_success refetches_def success_notifications_def)

theorem C1_add_success_without_refetch_witness:
  "indexClient sample_env = Some (ascii ''movies'')
   \<and> refetches (snd (addDocumentsMutation_mutate sample_env (Inr (EnqueuedTask 3))
        [JObject sample_doc] sample_state)) = 0
   \<and> success_notifications (snd (addDocumentsMutation_mutate sample_env (Inr (EnqueuedTask 3))
        [JObject sample_doc] sample_state)) = 1"
  using C1_add_success_without_refetch [OF indexClient_sample_env, of "EnqueuedTask 3"
          "[JObject sample_doc]" sample_state]
        indexClient_sample_env
  by blast

subsection \<open>Deleting a document\<close>

lemma onClickDocumentDel_no_pk:
  "\<not> truthy (indexPrimaryKeyQuery_data e) \<Longrightarrow>
     onClickDocumentDel e doc =
       [ConsoleDebug [Some (JString (ascii ''onClickDocumentDel'')), Some (JString (ascii ''pk'')),
                      map_option JString (indexPrimaryKeyQuery_data e)],
        ShowNotification (ascii ''danger'')
          (ascii ''Document deletion require the valid primaryKey in index ''
             @ template_string (indexClient e))]"
  by (cases "indexPrimaryKeyQuery_data e") (simp_all add: onClickDocumentDel_def)

lemma onClickDocumentDel_pk:
  "indexPrimaryKeyQuery_data e = Some k \<Longrightarrow> k \<noteq> [] \<Longrightarrow>
     onClickDocumentDel e doc =
       [ConsoleDebug [Some (JString (ascii ''onClickDocumentDel'')), Some (JString (ascii ''pk'')),
                      Some (JString k)],
        OpenConfirmModal
          \<lparr>modal_title = ascii ''Delete a document'', modal_pk = k,
           modal_doc_pk = hit_get doc k, modal_index = currentIndex e,
           modal_labels = (ascii ''Confirm'', ascii ''Cancel''),
           modal_onConfirm = [hit_get doc k]\<rparr>]"
  by (simp add: onClickDocumentDel_def)

lemma click_delete_no_pk:
  "\<not> truthy (indexPrimaryKeyQuery_data e) \<Longrightarrow>
     click_delete e resp choice doc st = (st, onClickDocumentDel e doc)"
  by (simp add: click_delete_def onClickDocumentDel_no_pk)

lemma click_delete_cancel:
  "indexPrimaryKeyQuery_data e = Some k \<Longrightarrow> k \<noteq> [] \<Longrightarrow>
     click_delete e resp Cancel doc st = (st, onClickDocumentDel e doc)"
  by (simp add: click_delete_def onClickDocumentDel_pk)

lemma click_delete_confirm:
  "indexPrimaryKeyQuery_data e = Some k \<Longrightarrow> k \<noteq> [] \<Longrightarrow>
     click_delete e resp Confirm doc st =
       (fst (removeDocumentsMutation_mutate e resp [hit_get doc k] st),
        onClickDocumentDel e doc @ snd (removeDocumentsMutation_mutate e resp [hit_get doc k] st))"
  by (simp add: click_delete_def onClickDocumentDel_pk modal_confirm_def split: prod.splits)

lemma delete_calls_append: "delete_calls (xs @ ys) = delete_calls xs @ delete_calls ys"
  by (induction xs rule: delete_calls.induct) simp_all

lemma delete_calls_removeDocumentsMutation:
  "delete_calls (snd (removeDocumentsMutation_mutate e resp ids st))
     = (case indexClient e of None \<Rightarrow> [] | Some uid \<Rightarrow> [ids])"
  by (cases resp; cases "indexClient e")
    (simp_all add: removeDocumentsMutation_mutate_def mutate_def removeDocumentsMutation_fn_def
      removeDocumentsMutation_onSuccess_def removeDocumentsMutation_onError_def)

lemma delete_calls_onClickDocumentDel: "delete_calls (onClickDocumentDel e doc) = []"
  by (cases "indexPrimaryKeyQuery_data e") (simp_all add: onClickDocumentDel_def)

lemma delete_calls_click_delete:
  "delete_calls (snd (click_delete e resp choice doc st))
     = (case (indexPrimaryKeyQuery_data e, choice, indexClient e) of
          (Some k, Confirm, Some uid) \<Rightarrow> if k \<noteq> [] then [[hit_get doc k]] else []
        | _ \<Rightarrow> [])"
proof (cases "truthy (indexPrimaryKeyQuery_data e)")
  case False
  then show ?thesis
    by (cases "indexPrimaryKeyQuery_data e"; cases choice; cases "indexClient e")
      (simp_all add: click_delete_no_pk delete_calls_onClickDocumentDel)
next
  case True
  then obtain k where k: "indexPrimaryKeyQuery_data e = Some k" "k \<noteq> []"
    by (cases "indexPrimaryKeyQuery_data e") simp_all
  show ?thesis
  proof (cases choice)
    case Cancel
    with k show ?thesis
      by (cases "indexClient e") (simp_all add: click_delete_cancel delete_calls_onClickDocumentDel)
  next
    case Confirm
    with k show ?thesis
      by (cases "indexClient e")
        (simp_all add: click_delete_confirm delete_calls_append delete_calls_onClickDocumentDel
          delete_calls_removeDocumentsMutation)
  qed
qed

text \<open>
  C3: when the primary-key query has no primary key (the value is absent), a click on
  Delete shows the one danger notification, changes no state and calls the delete
  endpoint neither at once nor later, whatever the user and the service do. When a
  primary key is present (a non-empty field name), the click shows no notification and
  opens the confirmation dialog; the delete endpoint is not called if the user cancels,
  and it is called, for the selected index, if the user confirms.
\<close>

theorem C3_delete_needs_primary_key:
  "(indexPrimaryKeyQuery_data e = None \<longrightarrow>
      click_delete e resp choice doc st =
        (st, [ConsoleDebug [Some (JString (ascii ''onClickDocumentDel'')),
                            Some (JString (ascii ''pk'')), None],
              ShowNotification (ascii ''danger'')
                (ascii ''Document deletion require the valid primaryKey in index ''
                   @ template_string (indexClient e))])
      \<and> delete_calls (snd (click_delete e resp choice doc st)) = []
      \<and> filter is_endpoint_call (snd (click_delete e resp choice doc st)) = [])
   \<and> (indexPrimaryKeyQuery_data e = Some k \<and> k \<noteq> [] \<longrightarrow>
      filter is_notification (onClickDocumentDel e doc) = []
      \<and> (\<exists>m. OpenConfirmModal m \<in> set (onClickDocumentDel e doc))
      \<and> delete_calls (snd (click_delete e resp Cancel doc st)) = []
      \<and> (indexClient e = Some uid \<longrightarrow>
           DeleteDocuments uid [hit_get doc k] \<in> set (snd (click_delete e resp Confirm doc st))))"
proof (intro conjI impI)
  assume none: "indexPrimaryKeyQuery_data e = None"
  then have nt: "\<not> truthy (indexPrimaryKeyQuery_data e)" by simp
  show "click_delete e resp choice doc st =
        (st, [ConsoleDebug [Some (JString (ascii ''onClickDocumentDel'')),
                            Some (JString (ascii ''pk'')), None],
              ShowNotification (ascii ''danger'')
                (ascii ''Document deletion require the valid primaryKey in index ''
                   @ template_string (indexClient e))])"
    using none by (simp add: click_delete_no_pk [OF nt] onClickDocumentDel_no_pk [OF nt])
  show "delete_calls (snd (click_delete e resp choice doc st)) = []"
    using none by (simp add: delete_calls_click_delete)
  show "filter is_endpoint_call (snd (click_delete e resp choice doc st)) = []"
    by (simp add: click_delete_no_pk [OF nt] onClickDocumentDel_no_pk [OF nt])
next
  assume pk: "indexPrimaryKeyQuery_data e = Some k \<and> k \<noteq> []"
  then show "filter is_notification (onClickDocumentDel e doc) = []"
    by (simp add: onClickDocumentDel_pk)
  from pk show "\<exists>m. OpenConfirmModal m \<in> set (onClickDocumentDel e doc)"
    by (simp add: onClickDocumentDel_pk)
  from pk show "delete_calls (snd (click_delete e resp Cancel doc st)) = []"
    by (simp add: delete_calls_click_delete)
  assume ic: "indexClient e = Some uid"
  from pk ic show "DeleteDocuments uid [hit_get doc k] \<in> set (snd (click_delete e resp Confirm doc st))"
    by (cases resp)
      (simp_all add: click_delete_confirm removeDocumentsMutation_mutate_def mutate_def
        removeDocumentsMutation_fn_def removeDocumentsMutation_onSuccess_def
        removeDocumentsMutation_onError_def)
qed
lemma hit_get_sample_doc: "hit_get sample_doc (ascii ''id'') = Value (JNumber (Finite 7))"
  by (simp add: hit_get_def sample_doc_def ascii_def)

theorem C3_delete_needs_primary_key_witness:
  "indexPrimaryKeyQuery_data (sample_env\<lparr>indexPrimaryKeyQuery_data := None\<rparr>) = None
   \<and> click_delete (sample_env\<lparr>indexPrimaryKeyQuery_data := None\<rparr>) (Inr (EnqueuedTask 3)) Confirm
        sample_doc sample_state
       = (sample_state,
          [ConsoleDebug [Some (JString (ascii ''onClickDocumentDel'')),
                         Some (JString (ascii ''pk'')), None],
           ShowNotification (ascii ''danger'')
             (ascii ''Document deletion require the valid primaryKey in index '' @ ascii ''movies'')])
   \<and> indexPrimaryKeyQuery_data sample_env = Some (ascii ''id'') \<and> ascii ''id'' \<noteq> []
   \<and> indexClient sample_env = Some (ascii ''movies'')
   \<and> DeleteDocuments (ascii ''movies'') [Value (JNumber (Finite 7))]
        \<in> set (snd (click_delete sample_env (Inr (EnqueuedTask 3)) Confirm sample_doc sample_state))"
  using C3_delete_needs_primary_key [of "sample_env\<lparr>indexPrimaryKeyQuery_data := None\<rparr>"
          "Inr (EnqueuedTask 3)" Confirm sample_doc sample_state "ascii ''id''" "ascii ''movies''"]
        C3_delete_needs_primary_key [of sample_env
          "Inr (EnqueuedTask 3)" Confirm sample_doc sample_state "ascii ''id''" "ascii ''movies''"]
        indexClient_sample_env hit_get_sample_doc
  by (simp add: sample_env_def indexClient_def ascii_def)

lemma hit_get_own: "map_of doc k = Some v \<Longrightarrow> hit_get doc k = Value v"
  by (simp add: hit_get_def)

lemma hit_get_missing:
  "map_of doc k = None \<Longrightarrow>
     hit_get doc k = (if k \<in> set Object_prototype_names then Inherited k else Undefined)"
  by (simp add: hit_get_def)

text \<open>
  C9: a confirmed deletion, for a configured primary key and a selected index, calls
  the delete endpoint exactly once, with the one-element list that holds what
  \<open>doc[pk]\<close> evaluates to on the clicked document: the value of its primary-key field;
  for a document without that field, the member of \<open>Object.prototype\<close> of that name,
  if there is one, and \<open>undefined\<close> otherwise. The handlers make no other call of the
  index client. No click on Delete, confirmed or not, ever sends any other list of
  identifiers.
\<close>

theorem C9_delete_sends_only_the_clicked_document:
  "(indexPrimaryKeyQuery_data e = Some k \<and> k \<noteq> [] \<and> indexClient e = Some uid \<longrightarrow>
      delete_calls (snd (click_delete e resp Confirm doc st))
        = [[case map_of doc k of
              Some v \<Rightarrow> Value v
            | None \<Rightarrow>
                if k \<in> set (map ascii
                     [''constructor'', ''hasOwnProperty'', ''isPrototypeOf'',
                      ''propertyIsEnumerable'', ''toLocaleString'', ''toString'', ''valueOf'',
                      ''__proto__'', ''__defineGetter__'', ''__defineSetter__'',
                      ''__lookupGetter__'', ''__lookupSetter__''])
                then Inherited k else Undefined]]
      \<and> delete_calls (snd (click_delete e resp Confirm doc st)) = [[hit_get doc k]]
      \<and> filter is_endpoint_call (snd (click_delete e resp Confirm doc st))
          = [DeleteDocuments uid [hit_get doc k]])
   \<and> (\<forall>ids \<in> set (delete_calls (snd (click_delete e resp choice doc st))).
        choice = Confirm \<and> (\<exists>k'. indexPrimaryKeyQuery_data e = Some k' \<and> ids = [hit_get doc k']))"
proof (intro conjI impI ballI)
  assume h: "indexPrimaryKeyQuery_data e = Some k \<and> k \<noteq> [] \<and> indexClient e = Some uid"
  then show calls: "delete_calls (snd (click_delete e resp Confirm doc st)) = [[hit_get doc k]]"
    by (simp add: delete_calls_click_delete)
  then show "delete_calls (snd (click_delete e resp Confirm doc st))
        = [[case map_of doc k of
              Some v \<Rightarrow> Value v
            | None \<Rightarrow>
                if k \<in> set (map ascii
                     [''constructor'', ''hasOwnProperty'', ''isPrototypeOf'',
                      ''propertyIsEnumerable'', ''toLocaleString'', ''toString'', ''valueOf'',
                      ''__proto__'', ''__defineGetter__'', ''__defineSetter__'',
                      ''__lookupGetter__'', ''__lookupSetter__''])
                then Inherited k else Undefined]]"
    by (simp only: hit_get_def Object_prototype_names_def)
  from h show "filter is_endpoint_call (snd (click_delete e resp Confirm doc st))
      = [DeleteDocuments uid [hit_get doc k]]"
    by (cases resp)
      (simp_all add: click_delete_confirm onClickDocumentDel_pk removeDocumentsMutation_mutate_def
        mutate_def removeDocumentsMutation_fn_def removeDocumentsMutation_onSuccess_def
        removeDocumentsMutation_onError_def)
next
  fix ids
  assume "ids \<in> set (delete_calls (snd (click_delete e resp choice doc st)))"
  then have mem: "ids \<in> set (case (indexPrimaryKeyQuery_data e, choice, indexClient e) of
          (Some k, Confirm, Some uid) \<Rightarrow> if k \<noteq> [] then [[hit_get doc k]] else []
        | _ \<Rightarrow> [])"
    by (simp only: delete_calls_click_delete)
  then show "choice = Confirm"
    by (cases "indexPrimaryKeyQuery_data e"; cases choice; cases "indexClient e") simp_all
  from mem show "\<exists>k'. indexPrimaryKeyQuery_data e = Some k' \<and> ids = [hit_get doc k']"
    by (cases "indexPrimaryKeyQuery_data e"; cases choice; cases "indexClient e")
      (simp_all split: if_splits)
qed

theorem C9_delete_sends_only_the_clicked_document_witness:
  "indexPrimaryKeyQuery_data sample_env = Some (ascii ''id'') \<and> ascii ''id'' \<noteq> []
   \<and> indexClient sample_env = Some (ascii ''movies'')
   \<and> delete_calls (snd (click_delete sample_env (Inr (EnqueuedTask 3)) Confirm sample_doc sample_state))
       = [[Value (JNumber (Finite 7))]]
   \<and> filter is_endpoint_call
        (snd (click_delete sample_env (Inr (EnqueuedTask 3)) Confirm sample_doc sample_state))
       = [DeleteDocuments (ascii ''movies'') [Value (JNumber (Finite 7))]]
   \<and> set (delete_calls
          (snd (click_delete sample_env (Inr (EnqueuedTask 3)) Confirm sample_doc sample_state)))
       = {[Value (JNumber (Finite 7))]}
   \<and> delete_calls (snd (click_delete (sample_env\<lparr>indexPrimaryKeyQuery_data := Some (ascii ''toString'')\<rparr>)
        (Inr (EnqueuedTask 3)) Confirm sample_doc sample_state))
       = [[Inherited (ascii ''toString'')]]
   \<and> delete_calls (snd (click_delete (sample_env\<lparr>indexPrimaryKeyQuery_data := Some (ascii ''uid'')\<rparr>)
        (Inr (EnqueuedTask 3)) Confirm sample_doc sample_state))
       = [[Undefined]]"
proof -
  let ?names = "map ascii
     [''constructor'', ''hasOwnProperty'', ''isPrototypeOf'',
      ''propertyIsEnumerable'', ''toLocaleString'', ''toString'', ''valueOf'',
      ''__proto__'', ''__defineGetter__'', ''__defineSetter__'',
      ''__lookupGetter__'', ''__lookupSetter__'']"
  let ?e1 = "sample_env\<lparr>indexPrimaryKeyQuery_data := Some (ascii ''toString'')\<rparr>"
  let ?e2 = "sample_env\<lparr>indexPrimaryKeyQuery_data := Some (ascii ''uid'')\<rparr>"
  have pk: "indexPrimaryKeyQuery_data sample_env = Some (ascii ''id'')"
    by (simp add: sample_env_def)
  have pk1: "indexPrimaryKeyQuery_data ?e1 = Some (ascii ''toString'')"
    by simp
  have pk2: "indexPrimaryKeyQuery_data ?e2 = Some (ascii ''uid'')"
    by simp
  have ne: "ascii ''id'' \<noteq> []" "ascii ''toString'' \<noteq> []" "ascii ''uid'' \<noteq> []"
    by (simp_all add: ascii_def)
  have ic: "indexClient ?e1 = Some (ascii ''movies'')" "indexClient ?e2 = Some (ascii ''movies'')"
    by (simp_all add: indexClient_def sample_env_def ascii_def)
  have l0: "(case map_of sample_doc (ascii ''id'') of Some v \<Rightarrow> Value v
              | None \<Rightarrow> if ascii ''id'' \<in> set ?names then Inherited (ascii ''id'') else Undefined)
            = Value (JNumber (Finite 7))"
    by (simp add: sample_doc_def)
  have l1: "(case map_of sample_doc (ascii ''toString'') of Some v \<Rightarrow> Value v
              | None \<Rightarrow> if ascii ''toString'' \<in> set ?names then Inherited (ascii ''toString'')
                        else Undefined)
            = Inherited (ascii ''toString'')"
    by (simp add: sample_doc_def ascii_def)
  have l2: "(case map_of sample_doc (ascii ''uid'') of Some v \<Rightarrow> Value v
              | None \<Rightarrow> if ascii ''uid'' \<in> set ?names then Inherited (ascii ''uid'') else Undefined)
            = Undefined"
    by (simp add: sample_doc_def ascii_def)
  note th = C9_delete_sends_only_the_clicked_document [of sample_env "ascii ''id''"
      "ascii ''movies''" "Inr (EnqueuedTask 3)" sample_doc sample_state Confirm]
  note th1 = C9_delete_sends_only_the_clicked_document [of ?e1 "ascii ''toString''"
      "ascii ''movies''" "Inr (EnqueuedTask 3)" sample_doc sample_state Confirm]
  note th2 = C9_delete_sends_only_the_clicked_document [of ?e2 "ascii ''uid''"
      "ascii ''movies''" "Inr (EnqueuedTask 3)" sample_doc sample_state Confirm]
  from th pk ne(1) indexClient_sample_env
  have calls: "delete_calls
      (snd (click_delete sample_env (Inr (EnqueuedTask 3)) Confirm sample_doc sample_state))
        = [[case map_of sample_doc (ascii ''id'') of Some v \<Rightarrow> Value v
              | None \<Rightarrow> if ascii ''id'' \<in> set ?names then Inherited (ascii ''id'') else Undefined]]"
    by blast
  from th pk ne(1) indexClient_sample_env
  have calls': "delete_calls
      (snd (click_delete sample_env (Inr (EnqueuedTask 3)) Confirm sample_doc sample_state))
        = [[hit_get sample_doc (ascii ''id'')]]"
    by blast
  from th pk ne(1) indexClient_sample_env
  have only: "filter is_endpoint_call
      (snd (click_delete sample_env (Inr (EnqueuedTask 3)) Confirm sample_doc sample_state))
        = [DeleteDocuments (ascii ''movies'') [hit_get sample_doc (ascii ''id'')]]"
    by blast
  from th1 pk1 ne(2) ic(1)
  have calls1: "delete_calls
      (snd (click_delete ?e1 (Inr (EnqueuedTask 3)) Confirm sample_doc sample_state))
        = [[case map_of sample_doc (ascii ''toString'') of Some v \<Rightarrow> Value v
              | None \<Rightarrow> if ascii ''toString'' \<in> set ?names then Inherited (ascii ''toString'')
                        else Undefined]]"
    by blast
  from th2 pk2 ne(3) ic(2)
  have calls2: "delete_calls
      (snd (click_delete ?e2 (Inr (EnqueuedTask 3)) Confirm sample_doc sample_state))
        = [[case map_of sample_doc (ascii ''uid'') of Some v \<Rightarrow> Value v
              | None \<Rightarrow> if ascii ''uid'' \<in> set ?names then Inherited (ascii ''uid'') else Undefined]]"
    by blast
  have hv: "hit_get sample_doc (ascii ''id'') = Value (JNumber (Finite 7))"
    using calls calls' l0 by simp
  from calls l0 have c0: "delete_calls
      (snd (click_delete sample_env (Inr (EnqueuedTask 3)) Confirm sample_doc sample_state))
        = [[Value (JNumber (Finite 7))]]"
    by (simp only:)
  from calls1 l1 have c1: "delete_calls
      (snd (click_delete ?e1 (Inr (EnqueuedTask 3)) Confirm sample_doc sample_state))
        = [[Inherited (ascii ''toString'')]]"
    by (simp only:)
  from calls2 l2 have c2: "delete_calls
      (snd (click_delete ?e2 (Inr (EnqueuedTask 3)) Confirm sample_doc sample_state))
        = [[Undefined]]"
    by (simp only:)
  from only hv have o: "filter is_endpoint_call
      (snd (click_delete sample_env (Inr (EnqueuedTask 3)) Confirm sample_doc sample_state))
        = [DeleteDocuments (ascii ''movies'') [Value (JNumber (Finite 7))]]"
    by (simp only:)
  have s0: "set (delete_calls
      (snd (click_delete sample_env (Inr (EnqueuedTask 3)) Confirm sample_doc sample_state)))
        = {[Value (JNumber (Finite 7))]}"
    by (simp only: c0 list.set)
  from pk ne(1) indexClient_sample_env c0 o s0 c1 c2 show ?thesis
    by (intro conjI)
qed

subsection \<open>Editing a document\<close>

lemma update_calls_editDocumentMutation:
  "update_calls (snd (editDocumentMutation_mutate e resp docs st))
     = (case indexClient e of None \<Rightarrow> [] | Some uid \<Rightarrow> [docs])"
  by (cases resp; cases "indexClient e")
    (simp_all add: editDocumentMutation_mutate_def mutate_def editDocumentMutation_fn_def
      editDocumentMutation_onSuccess_def editDocumentMutation_onError_def)

text \<open>
  C10: submitting the edit form while no document is under edit does nothing: no
  effect, so no call of the update endpoint, and the state is unchanged. While a
  document is under edit, and an index is selected, the update endpoint is called
  exactly once, with the one-element array that holds that document, and the handler
  makes no other call of the index client.
\<close>

theorem C10_update_submit:
  "(editingDocument st = None \<longrightarrow> onSubmitDocumentUpdate e resp st = (st, []))
   \<and> (editingDocument st = Some d \<and> indexClient e = Some uid \<longrightarrow>
        update_calls (snd (onSubmitDocumentUpdate e resp st)) = [[d]]
        \<and> filter is_endpoint_call (snd (onSubmitDocumentUpdate e resp st))
            = [UpdateDocuments uid [d]])"
proof (intro conjI impI)
  assume "editingDocument st = None"
  then show "onSubmitDocumentUpdate e resp st = (st, [])"
    by (simp add: onSubmitDocumentUpdate_def)
next
  assume h: "editingDocument st = Some d \<and> indexClient e = Some uid"
  then show "update_calls (snd (onSubmitDocumentUpdate e resp st)) = [[d]]"
    by (simp add: onSubmitDocumentUpdate_def update_calls_editDocumentMutation)
  from h show "filter is_endpoint_call (snd (onSubmitDocumentUpdate e resp st))
      = [UpdateDocuments uid [d]]"
    by (cases resp)
      (simp_all add: onSubmitDocumentUpdate_def editDocumentMutation_mutate_def mutate_def
        editDocumentMutation_fn_def editDocumentMutation_onSuccess_def
        editDocumentMutation_onError_def)
qed

theorem C10_update_submit_witness:
  "editingDocument (sample_state\<lparr>editingDocument := None\<rparr>) = None
   \<and> onSubmitDocumentUpdate sample_env (Inr (EnqueuedTask 3)) (sample_state\<lparr>editingDocument := None\<rparr>)
       = (sample_state\<lparr>editingDocument := None\<rparr>, [])
   \<and> editingDocument sample_state = Some sample_doc
   \<and> indexClient sample_env = Some (ascii ''movies'')
   \<and> update_calls (snd (onSubmitDocumentUpdate sample_env (Inr (EnqueuedTask 3)) sample_state))
       = [[sample_doc]]
   \<and> filter is_endpoint_call (snd (onSubmitDocumentUpdate sample_env (Inr (EnqueuedTask 3)) sample_state))
       = [UpdateDocuments (ascii ''movies'') [sample_doc]]"
  using C10_update_submit [of "sample_state\<lparr>editingDocument := None\<rparr>" sample_env
          "Inr (EnqueuedTask 3)" sample_doc "ascii ''movies''"]
        C10_update_submit [of sample_state sample_env
          "Inr (EnqueuedTask 3)" sample_doc "ascii ''movies''"]
        indexClient_sample_env
  by (simp add: sample_state_def)

subsection \<open>The search query\<close>

lemma dropWhile_all_Nil:
  assumes "\<forall>x \<in> set (dropWhile P xs). P x"
  shows "dropWhile P xs = []"
proof (rule ccontr)
  assume ne: "dropWhile P xs \<noteq> []"
  then have "\<not> P (hd (dropWhile P xs))"
    by (rule hd_dropWhile)
  moreover from ne have "hd (dropWhile P xs) \<in> set (dropWhile P xs)"
    by (rule hd_in_set)
  ultimately show False
    using assms by blast
qed

lemma js_trim_Nil_iff: "js_trim v = [] \<longleftrightarrow> list_all is_ws v"
proof
  assume "js_trim v = []"
  then have "\<forall>x \<in> set (dropWhile is_ws v). is_ws x"
    by (simp add: js_trim_def)
  then have "dropWhile is_ws v = []"
    by (rule dropWhile_all_Nil)
  then show "list_all is_ws v"
    by (simp add: list_all_iff)
next
  assume "list_all is_ws v"
  then have "dropWhile is_ws v = []"
    by (simp add: list_all_iff)
  then have "rev (dropWhile is_ws (rev (dropWhile is_ws v))) = rev (dropWhile is_ws (rev []))"
    by (rule arg_cong)
  then show "js_trim v = []"
    by (simp only: js_trim_def rev.simps dropWhile.simps)
qed

lemma sort_list_refines: "sort_list s = spec_sort_list s"
proof -
  have "(\<lambda>v. length (js_trim v) > 0) = (\<lambda>seg. \<not> (seg = [] \<or> whitespace_only seg))"
    by (rule ext) (auto simp add: js_trim_Nil_iff whitespace_only_def)
  then show ?thesis
    by (simp add: sort_list_def spec_sort_list_def)
qed

lemma js_split_not_Nil: "js_split sep s \<noteq> []"
  by (induction s) (auto split: list.splits)

lemma js_split_no_sep: "seg \<in> set (js_split sep s) \<Longrightarrow> sep \<notin> set seg"
proof (induction s arbitrary: seg)
  case Nil
  then show ?case by simp
next
  case (Cons c cs)
  show ?case
  proof (cases "c = sep")
    case True
    with Cons show ?thesis by auto
  next
    case False
    obtain x xs where sp: "js_split sep cs = x # xs"
      using js_split_not_Nil [of sep cs] by (cases "js_split sep cs") auto
    with Cons False show ?thesis by auto
  qed
qed

lemma js_join_split: "js_join sep (js_split sep s) = s"
proof (induction s)
  case Nil
  then show ?case by simp
next
  case (Cons c cs)
  obtain x xs where sp: "js_split sep cs = x # xs"
    using js_split_not_Nil [of sep cs] by (cases "js_split sep cs") auto
  with Cons show ?case
    by (cases xs) auto
qed

lemma js_trim_no_outer_ws:
  "js_trim v \<noteq> [] \<Longrightarrow> \<not> is_ws (hd (js_trim v)) \<and> \<not> is_ws (last (js_trim v))"
proof -
  assume ne: "js_trim v \<noteq> []"
  let ?d = "dropWhile is_ws v"
  let ?r = "dropWhile is_ws (rev ?d)"
  from ne have r: "?r \<noteq> []" by (simp add: js_trim_def)
  then have "\<not> is_ws (hd ?r)" by (rule hd_dropWhile)
  with r have l: "\<not> is_ws (last (js_trim v))"
    by (simp add: js_trim_def last_rev)
  have d: "?d \<noteq> []"
  proof
    assume "?d = []"
    then have "?r = dropWhile is_ws (rev [])" by (rule arg_cong)
    then have "?r = []" by (simp only: rev.simps dropWhile.simps)
    with r show False by contradiction
  qed
  then have hd: "\<not> is_ws (hd ?d)" by (rule hd_dropWhile)
  have "hd (js_trim v) = hd ?d"
  proof -
    from d obtain y ys where dy: "?d = y # ys" by (cases ?d) auto
    with hd have ny: "\<not> is_ws y" by simp
    have "rev ?d = rev ys @ [y]" using dy by simp
    then have "?r = dropWhile is_ws (rev ys) @ [y]"
      using ny by (simp add: dropWhile_append)
    then have "js_trim v = y # rev (dropWhile is_ws (rev ys))"
      by (simp add: js_trim_def)
    with dy show ?thesis by simp
  qed
  with hd l show ?thesis by simp
qed


lemma set_js_trim: "set (js_trim v) \<subseteq> set v"
  by (auto simp add: js_trim_def dest!: set_dropWhileD)

lemma sort_list_elements:
  assumes "x \<in> set (sort_list s)"
  shows "x \<noteq> []" and "\<not> is_ws (hd x)" and "\<not> is_ws (last x)" and "comma \<notin> set x"
proof -
  from assms obtain seg where seg: "seg \<in> set (js_split comma s)" "js_trim seg \<noteq> []"
    and x: "x = js_trim seg"
    by (auto simp add: sort_list_def)
  from seg x show "x \<noteq> []" by simp
  from seg x js_trim_no_outer_ws [of seg] show "\<not> is_ws (hd x)" and "\<not> is_ws (last x)"
    by simp_all
  from seg have "comma \<notin> set seg" by (simp add: js_split_no_sep)
  with x set_js_trim [of seg] show "comma \<notin> set x" by blast
qed

lemma sort_list_example:
  "sort_list (ascii ''a:asc, b:desc'') = [ascii ''a:asc'', ascii ''b:desc'']"
  by (simp add: sort_list_def ascii_def comma_def js_trim_def is_ws_def)

text \<open>
  C4: the search call forwards the sort expression as the list obtained by splitting it
  on commas, dropping the segments that are empty or white space only, and trimming each
  remaining segment; \<open>a:asc, b:desc\<close> is forwarded as the list of \<open>a:asc\<close> and
  \<open>b:desc\<close>. The query text, the limit, the offset and the filter string of the
  values in the query key (the values of the form) are forwarded unchanged.
\<close>

theorem C4_search_forwarding:
  "sort_list s = spec_sort_list s
   \<and> sort_list (ascii ''a:asc, b:desc'') = [ascii ''a:asc'', ascii ''b:desc'']
   \<and> (indexClient e = Some uid \<longrightarrow>
        searchDocumentsQuery_fn e form_values key_values resp =
          ([Search uid (v_q key_values)
              \<lparr>p_limit = v_limit key_values, p_offset = v_offset key_values,
               p_filter = v_filter key_values, p_sort = spec_sort_list (v_sort key_values)\<rparr>],
           resp))"
proof (intro conjI impI)
  show "sort_list s = spec_sort_list s"
    by (rule sort_list_refines)
  show "sort_list (ascii ''a:asc, b:desc'') = [ascii ''a:asc'', ascii ''b:desc'']"
    by (rule sort_list_example)
  assume "indexClient e = Some uid"
  then show "searchDocumentsQuery_fn e form_values key_values resp =
          ([Search uid (v_q key_values)
              \<lparr>p_limit = v_limit key_values, p_offset = v_offset key_values,
               p_filter = v_filter key_values, p_sort = spec_sort_list (v_sort key_values)\<rparr>],
           resp)"
    by (simp add: searchDocumentsQuery_fn_def spread_def sort_list_refines)
qed

theorem C4_search_forwarding_witness:
  "indexClient sample_env = Some (ascii ''movies'')
   \<and> searchDocumentsQuery_fn sample_env
        (searchForm_initialValues\<lparr>v_q := ascii ''heat'', v_sort := ascii ''a:asc, b:desc''\<rparr>)
        (searchForm_initialValues\<lparr>v_q := ascii ''heat'', v_sort := ascii ''a:asc, b:desc''\<rparr>)
        (Inr ())
      = ([Search (ascii ''movies'') (ascii ''heat'')
            \<lparr>p_limit = Finite 20, p_offset = Finite 0, p_filter = [],
             p_sort = [ascii ''a:asc'', ascii ''b:desc'']\<rparr>],
         Inr ())"
proof -
  let ?vs = "searchForm_initialValues\<lparr>v_q := ascii ''heat'', v_sort := ascii ''a:asc, b:desc''\<rparr>"
  note th = C4_search_forwarding [of "ascii ''a:asc, b:desc''" sample_env "ascii ''movies''"
      ?vs ?vs "Inr ()"]
  from th have a: "sort_list (ascii ''a:asc, b:desc'') = spec_sort_list (ascii ''a:asc, b:desc'')"
    by (rule conjunct1)
  from th have b: "sort_list (ascii ''a:asc, b:desc'') = [ascii ''a:asc'', ascii ''b:desc'']"
    by (elim conjE)
  have s: "spec_sort_list (ascii ''a:asc, b:desc'') = [ascii ''a:asc'', ascii ''b:desc'']"
    by (rule trans [OF a [symmetric] b])
  from th indexClient_sample_env
  have "searchDocumentsQuery_fn sample_env ?vs ?vs (Inr ()) =
          ([Search (ascii ''movies'') (v_q ?vs)
              \<lparr>p_limit = v_limit ?vs, p_offset = v_offset ?vs,
               p_filter = v_filter ?vs, p_sort = spec_sort_list (v_sort ?vs)\<rparr>],
           Inr ())"
    by blast
  with s indexClient_sample_env show ?thesis
    by (simp add: searchForm_initialValues_def)
qed

subsection \<open>The clipboard default of the add-documents dialog\<close>

lemma onAddDocumentsClick_parsed:
  assumes "clipboard_read = Inr (item # rest)"
    and "ascii ''text/plain'' \<in> set (item_types item)"
    and "item_getType item (ascii ''text/plain'') = Inr content"
  shows "onAddDocumentsClick JSON_parse clipboard_read st =
     (case JSON_parse content of
        Inl err \<Rightarrow> (st\<lparr>isAddDocumentsModalOpen := True\<rparr>, [], Some err)
      | Inr json \<Rightarrow>
          (let arr = (if isArray json then elements json else if isObject json then [json] else [])
           in (if arr \<noteq> [] then st\<lparr>isAddDocumentsModalOpen := True, addDocumentsForm_documents := arr\<rparr>
               else st\<lparr>isAddDocumentsModalOpen := True\<rparr>,
               [ConsoleDebug [Some (JString (ascii ''onAddDocumentsClick paste clipboard'')),
                              Some (JArray arr), Some json]],
               None)))"
  using assms
  by (simp add: onAddDocumentsClick_def Let_def split: sum.splits)

lemma onAddDocumentsClick_silent:
  "filter is_notification (fst (snd (onAddDocumentsClick JSON_parse clipboard_read st))) = []
   \<and> filter is_endpoint_call (fst (snd (onAddDocumentsClick JSON_parse clipboard_read st))) = []"
  by (simp add: onAddDocumentsClick_def Let_def split: sum.splits list.splits)

lemma onAddDocumentsClick_no_text:
  "clipboard_read = Inl err \<or> clipboard_read = Inr []
     \<or> (\<exists>item rest. clipboard_read = Inr (item # rest)
           \<and> (ascii ''text/plain'' \<notin> set (item_types item)
               \<or> (\<exists>err. item_getType item (ascii ''text/plain'') = Inl err))) \<Longrightarrow>
   fst (onAddDocumentsClick JSON_parse clipboard_read st) = st\<lparr>isAddDocumentsModalOpen := True\<rparr>"
  by (auto simp add: onAddDocumentsClick_def Let_def split: sum.splits list.splits)

text \<open>
  C6: for a clipboard whose first item has a \<open>text/plain\<close> representation: a text
  that parses as a non-empty JSON array becomes the documents of the form; a text that
  parses as a JSON object becomes the one-element array holding that object. When the
  parser fails, the handler stops with the parser's error (its promise rejects, nothing
  catches it); when the parsed value is neither an array nor an object, or is the empty
  array, the handler ends normally. In these cases the documents of the form are
  unchanged: the only change of state is that the dialog is open, as it is on every
  click. In every case no notification is shown and no endpoint is called.
\<close>

theorem C6_clipboard_default:
  "clipboard_read = Inr (item # rest) \<and> ascii ''text/plain'' \<in> set (item_types item)
     \<and> item_getType item (ascii ''text/plain'') = Inr content \<longrightarrow>
   (JSON_parse content = Inr (JArray (x # xs)) \<longrightarrow>
      fst (onAddDocumentsClick JSON_parse clipboard_read st)
        = st\<lparr>isAddDocumentsModalOpen := True, addDocumentsForm_documents := x # xs\<rparr>)
   \<and> (JSON_parse content = Inr (JObject kvs) \<longrightarrow>
      fst (onAddDocumentsClick JSON_parse clipboard_read st)
        = st\<lparr>isAddDocumentsModalOpen := True, addDocumentsForm_documents := [JObject kvs]\<rparr>)
   \<and> (JSON_parse content = Inl err \<longrightarrow>
      onAddDocumentsClick JSON_parse clipboard_read st
        = (st\<lparr>isAddDocumentsModalOpen := True\<rparr>, [], Some err))
   \<and> (JSON_parse content = Inr json \<and> (\<not> isObject json \<or> json = JArray []) \<longrightarrow>
      fst (onAddDocumentsClick JSON_parse clipboard_read st) = st\<lparr>isAddDocumentsModalOpen := True\<rparr>
      \<and> addDocumentsForm_documents (fst (onAddDocumentsClick JSON_parse clipboard_read st))
          = addDocumentsForm_documents st
      \<and> snd (snd (onAddDocumentsClick JSON_parse clipboard_read st)) = None)
   \<and> filter is_notification (fst (snd (onAddDocumentsClick JSON_parse clipboard_read st))) = []
   \<and> filter is_endpoint_call (fst (snd (onAddDocumentsClick JSON_parse clipboard_read st))) = []"
proof (intro impI)
  assume h: "clipboard_read = Inr (item # rest) \<and> ascii ''text/plain'' \<in> set (item_types item)
     \<and> item_getType item (ascii ''text/plain'') = Inr content"
  note p = onAddDocumentsClick_parsed [of clipboard_read item rest content JSON_parse st]
  show "(JSON_parse content = Inr (JArray (x # xs)) \<longrightarrow>
      fst (onAddDocumentsClick JSON_parse clipboard_read st)
        = st\<lparr>isAddDocumentsModalOpen := True, addDocumentsForm_documents := x # xs\<rparr>)
   \<and> (JSON_parse content = Inr (JObject kvs) \<longrightarrow>
      fst (onAddDocumentsClick JSON_parse clipboard_read st)
        = st\<lparr>isAddDocumentsModalOpen := True, addDocumentsForm_documents := [JObject kvs]\<rparr>)
   \<and> (JSON_parse content = Inl err \<longrightarrow>
      onAddDocumentsClick JSON_parse clipboard_read st
        = (st\<lparr>isAddDocumentsModalOpen := True\<rparr>, [], Some err))
   \<and> (JSON_parse content = Inr json \<and> (\<not> isObject json \<or> json = JArray []) \<longrightarrow>
      fst (onAddDocumentsClick JSON_parse clipboard_read st) = st\<lparr>isAddDocumentsModalOpen := True\<rparr>
      \<and> addDocumentsForm_documents (fst (onAddDocumentsClick JSON_parse clipboard_read st))
          = addDocumentsForm_documents st
      \<and> snd (snd (onAddDocumentsClick JSON_parse clipboard_read st)) = None)
   \<and> filter is_notification (fst (snd (onAddDocumentsClick JSON_parse clipboard_read st))) = []
   \<and> filter is_endpoint_call (fst (snd (onAddDocumentsClick JSON_parse clipboard_read st))) = []"
  proof (intro conjI impI)
    assume "JSON_parse content = Inr (JArray (x # xs))"
    with h p show "fst (onAddDocumentsClick JSON_parse clipboard_read st)
        = st\<lparr>isAddDocumentsModalOpen := True, addDocumentsForm_documents := x # xs\<rparr>"
      by (simp add: Let_def)
  next
    assume "JSON_parse content = Inr (JObject kvs)"
    with h p show "fst (onAddDocumentsClick JSON_parse clipboard_read st)
        = st\<lparr>isAddDocumentsModalOpen := True, addDocumentsForm_documents := [JObject kvs]\<rparr>"
      by (simp add: Let_def)
  next
    assume "JSON_parse content = Inl err"
    with h p show "onAddDocumentsClick JSON_parse clipboard_read st
        = (st\<lparr>isAddDocumentsModalOpen := True\<rparr>, [], Some err)"
      by (simp add: Let_def)
  next
    assume j: "JSON_parse content = Inr json \<and> (\<not> isObject json \<or> json = JArray [])"
    with h p show f: "fst (onAddDocumentsClick JSON_parse clipboard_read st)
        = st\<lparr>isAddDocumentsModalOpen := True\<rparr>"
      by (cases json) (auto simp add: Let_def)
    then show "addDocumentsForm_documents (fst (onAddDocumentsClick JSON_parse clipboard_read st))
          = addDocumentsForm_documents st"
      by simp
    from j h p show "snd (snd (onAddDocumentsClick JSON_parse clipboard_read st)) = None"
      by (simp add: Let_def)
  next
    show "filter is_notification (fst (snd (onAddDocumentsClick JSON_parse clipboard_read st))) = []"
      by (simp add: onAddDocumentsClick_silent)
    show "filter is_endpoint_call (fst (snd (onAddDocumentsClick JSON_parse clipboard_read st))) = []"
      by (simp add: onAddDocumentsClick_silent)
  qed
qed

theorem C6_clipboard_default_witness:
  "onAddDocumentsClick (\<lambda>t. Inl SyntaxError) (Inr [sample_item (ascii ''{id:'')]) sample_state
     = (sample_state\<lparr>isAddDocumentsModalOpen := True\<rparr>, [], Some SyntaxError)
   \<and> fst (onAddDocumentsClick (\<lambda>t. Inr (JObject sample_doc)) (Inr [sample_item (ascii ''{}'')])
          sample_state)
     = sample_state\<lparr>isAddDocumentsModalOpen := True, addDocumentsForm_documents := [JObject sample_doc]\<rparr>
   \<and> fst (onAddDocumentsClick (\<lambda>t. Inr (JArray [JNull, JBool True])) (Inr [sample_item (ascii ''[]'')])
          sample_state)
     = sample_state\<lparr>isAddDocumentsModalOpen := True, addDocumentsForm_documents := [JNull, JBool True]\<rparr>
   \<and> fst (onAddDocumentsClick (\<lambda>t. Inr (JNumber (Finite 5))) (Inr [sample_item (ascii ''5'')])
          sample_state)
     = sample_state\<lparr>isAddDocumentsModalOpen := True\<rparr>"
  using C6_clipboard_default [of "Inr [sample_item (ascii ''{id:'')]" "sample_item (ascii ''{id:'')" "[]"
          "ascii ''{id:''" "\<lambda>t. Inl SyntaxError" JNull "[]" sample_state "[]" SyntaxError JNull]
        C6_clipboard_default [of "Inr [sample_item (ascii ''{}'')]" "sample_item (ascii ''{}'')" "[]"
          "ascii ''{}''" "\<lambda>t. Inr (JObject sample_doc)" JNull "[]" sample_state sample_doc
          SyntaxError JNull]
        C6_clipboard_default [of "Inr [sample_item (ascii ''[]'')]" "sample_item (ascii ''[]'')" "[]"
          "ascii ''[]''" "\<lambda>t. Inr (JArray [JNull, JBool True])" JNull "[JBool True]" sample_state
          sample_doc SyntaxError JNull]
        C6_clipboard_default [of "Inr [sample_item (ascii ''5'')]" "sample_item (ascii ''5'')" "[]"
          "ascii ''5''" "\<lambda>t. Inr (JNumber (Finite 5))" JNull "[]" sample_state
          sample_doc SyntaxError "JNumber (Finite 5)"]
  by (simp add: sample_item_def)

end
